theory Spec2Isabelle
  imports Main "HOL-Library.Sublist"
begin

section \<open>Promises, errors and the log of collaborator calls\<close>

text \<open>
  A JavaScript \<open>Error\<close> object is its message. A promise is modelled by the way it
  settles: rejected with a reason or resolved with a value.
\<close>

datatype Error = Error (message: string)

datatype ('e, 'a) promise = Rejected 'e | Resolved 'a

text \<open>
  \<open>Response<T> = T | Error\<close> of the fake network client: a canned value or a canned
  error (the branch taken by \<open>instanceof Error\<close>).
\<close>

datatype 'a Response = Success 'a | Failure Error

section \<open>Legacy protocol messages\<close>

text \<open>
  The generated protocol-buffer classes are not part of the sources. Each message is a
  record of the fields the sources read or write; a field whose getter may yield
  \<open>undefined\<close> is an \<open>option\<close>.
\<close>

record XRPAmount =
  XRPAmount_drops :: string

record AccountInfo =
  AccountInfo_balance :: "XRPAmount option"
  AccountInfo_sequence :: "nat option"

record Fee =
  Fee_amount :: "XRPAmount option"

record SubmitSignedTransactionResponse =
  engineResult :: string
  engineResultCode :: int
  engineResultMessage :: string
  transactionBlob :: string

record LedgerSequence =
  LedgerSequence_index :: nat

record TransactionStatus =
  validated :: bool
  transactionStatusCode :: string

record GetAccountInfoRequest =
  GetAccountInfoRequest_address :: string

datatype GetFeeRequest = GetFeeRequest

datatype GetLatestValidatedLedgerSequenceRequest = GetLatestValidatedLedgerSequenceRequest

record GetTransactionStatusRequest =
  GetTransactionStatusRequest_transactionHash :: string

record Payment =
  Payment_xrpAmount :: XRPAmount
  Payment_destination :: string

record Transaction =
  Transaction_account :: string
  Transaction_fee :: XRPAmount
  Transaction_sequence :: nat
  Transaction_payment :: Payment

text \<open>The signed artifact is opaque: the bytes the Signer produced.\<close>

datatype SignedTransaction = SignedTransaction string

record SubmitSignedTransactionRequest =
  SubmitSignedTransactionRequest_signedTransaction :: SignedTransaction

text \<open>Of a wallet the client reads only \<open>getAddress()\<close>.\<close>

record Wallet =
  Wallet_address :: string

section \<open>The legacy network client interface\<close>

record LegacyNetworkClient =
  getAccountInfo :: "GetAccountInfoRequest \<Rightarrow> (Error, AccountInfo) promise"
  getFee :: "GetFeeRequest \<Rightarrow> (Error, Fee) promise"
  submitSignedTransaction ::
    "SubmitSignedTransactionRequest \<Rightarrow> (Error, SubmitSignedTransactionResponse) promise"
  getLatestValidatedLedgerSequence ::
    "GetLatestValidatedLedgerSequenceRequest \<Rightarrow> (Error, LedgerSequence) promise"
  getTransactionStatus ::
    "GetTransactionStatusRequest \<Rightarrow> (Error, TransactionStatus) promise"

section \<open>FakeLegacyNetworkClientResponses and FakeLegacyNetworkClient\<close>

record FakeLegacyNetworkClientResponses =
  getAccountInfoResponse :: "AccountInfo Response"
  getFeeResponse :: "Fee Response"
  submitSignedTransactionResponse :: "SubmitSignedTransactionResponse Response"
  getLatestValidatedLedgerSequenceResponse :: "LedgerSequence Response"
  getTransactionStatusResponse :: "TransactionStatus Response"

definition defaultError :: Error where
  "defaultError = Error ''fake network client failure''"

text \<open>
  Modelled from the spec: the generated class \<open>AccountInfo\<close> is missing from the
  sources. The spec's data model gives an account info a balance (an amount, a message)
  and a sequence (an integer). \<open>new AccountInfo()\<close> sets no field: a message that was
  never set reads as \<open>undefined\<close>, a number of the protocol that was never set reads
  as 0.
\<close>

definition new_AccountInfo :: AccountInfo where
  "new_AccountInfo = \<lparr>AccountInfo_balance = None, AccountInfo_sequence = Some 0\<rparr>"

definition defaultAccountInfoResponse :: AccountInfo where
  "defaultAccountInfoResponse =
     (let balance = \<lparr>XRPAmount_drops = ''4000''\<rparr>;
          accountInfo = new_AccountInfo
      in accountInfo\<lparr>AccountInfo_balance := Some balance\<rparr>)"

definition defaultFeeResponse :: Fee where
  "defaultFeeResponse =
     (let amount = \<lparr>XRPAmount_drops = ''10''\<rparr>;
          fee = \<lparr>Fee_amount = None\<rparr>
      in fee\<lparr>Fee_amount := Some amount\<rparr>)"

definition defaultSubmitSignedTransactionResponse :: SubmitSignedTransactionResponse where
  "defaultSubmitSignedTransactionResponse =
     \<lparr>engineResult = ''tesSUCCESS'',
      engineResultCode = 0,
      engineResultMessage = ''The transaction was applied. Only final in a validated ledger.'',
      transactionBlob = ''DEADBEEF''\<rparr>"

definition defaultLedgerSequenceResponse :: LedgerSequence where
  "defaultLedgerSequenceResponse = \<lparr>LedgerSequence_index = 12\<rparr>"

definition defaultTransactionStatusResponse :: TransactionStatus where
  "defaultTransactionStatusResponse =
     \<lparr>validated = True, transactionStatusCode = ''tesSUCCESS''\<rparr>"

definition defaultSuccessfulResponses :: FakeLegacyNetworkClientResponses where
  "defaultSuccessfulResponses =
     \<lparr>getAccountInfoResponse = Success defaultAccountInfoResponse,
      getFeeResponse = Success defaultFeeResponse,
      submitSignedTransactionResponse = Success defaultSubmitSignedTransactionResponse,
      getLatestValidatedLedgerSequenceResponse = Success defaultLedgerSequenceResponse,
      getTransactionStatusResponse = Success defaultTransactionStatusResponse\<rparr>"

definition defaultErrorResponses :: FakeLegacyNetworkClientResponses where
  "defaultErrorResponses =
     \<lparr>getAccountInfoResponse = Failure defaultError,
      getFeeResponse = Failure defaultError,
      submitSignedTransactionResponse = Failure defaultError,
      getLatestValidatedLedgerSequenceResponse = Failure defaultError,
      getTransactionStatusResponse = Failure defaultError\<rparr>"

definition FakeLegacyNetworkClient_getAccountInfo ::
  "FakeLegacyNetworkClientResponses \<Rightarrow> GetAccountInfoRequest \<Rightarrow> (Error, AccountInfo) promise" where
  "FakeLegacyNetworkClient_getAccountInfo responses accountInfoRequest =
     (case getAccountInfoResponse responses of
        Failure accountInfoResponse \<Rightarrow> Rejected accountInfoResponse
      | Success accountInfoResponse \<Rightarrow> Resolved accountInfoResponse)"

definition FakeLegacyNetworkClient_getFee ::
  "FakeLegacyNetworkClientResponses \<Rightarrow> GetFeeRequest \<Rightarrow> (Error, Fee) promise" where
  "FakeLegacyNetworkClient_getFee responses feeRequest =
     (case getFeeResponse responses of
        Failure feeResponse \<Rightarrow> Rejected feeResponse
      | Success feeResponse \<Rightarrow> Resolved feeResponse)"

definition FakeLegacyNetworkClient_submitSignedTransaction ::
  "FakeLegacyNetworkClientResponses \<Rightarrow> SubmitSignedTransactionRequest
     \<Rightarrow> (Error, SubmitSignedTransactionResponse) promise" where
  "FakeLegacyNetworkClient_submitSignedTransaction responses submitSignedTransactionRequest =
     (case submitSignedTransactionResponse responses of
        Failure response \<Rightarrow> Rejected response
      | Success response \<Rightarrow> Resolved response)"

definition FakeLegacyNetworkClient_getLatestValidatedLedgerSequence ::
  "FakeLegacyNetworkClientResponses \<Rightarrow> GetLatestValidatedLedgerSequenceRequest
     \<Rightarrow> (Error, LedgerSequence) promise" where
  "FakeLegacyNetworkClient_getLatestValidatedLedgerSequence responses getLatestValidatedLedgerSequenceRequest =
     (case getLatestValidatedLedgerSequenceResponse responses of
        Failure ledgerSequenceResponse \<Rightarrow> Rejected ledgerSequenceResponse
      | Success ledgerSequenceResponse \<Rightarrow> Resolved ledgerSequenceResponse)"

definition FakeLegacyNetworkClient_getTransactionStatus ::
  "FakeLegacyNetworkClientResponses \<Rightarrow> GetTransactionStatusRequest
     \<Rightarrow> (Error, TransactionStatus) promise" where
  "FakeLegacyNetworkClient_getTransactionStatus responses getTransactionStatusRequest =
     (case getTransactionStatusResponse responses of
        Failure transactionStatusResponse \<Rightarrow> Rejected transactionStatusResponse
      | Success transactionStatusResponse \<Rightarrow> Resolved transactionStatusResponse)"

text \<open>The fake as a network client: the object whose methods are the five above.\<close>

definition FakeLegacyNetworkClient :: "FakeLegacyNetworkClientResponses \<Rightarrow> LegacyNetworkClient" where
  "FakeLegacyNetworkClient responses =
     \<lparr>getAccountInfo = FakeLegacyNetworkClient_getAccountInfo responses,
      getFee = FakeLegacyNetworkClient_getFee responses,
      submitSignedTransaction = FakeLegacyNetworkClient_submitSignedTransaction responses,
      getLatestValidatedLedgerSequence =
        FakeLegacyNetworkClient_getLatestValidatedLedgerSequence responses,
      getTransactionStatus = FakeLegacyNetworkClient_getTransactionStatus responses\<rparr>"

section \<open>The legacy XpringClient\<close>

text \<open>
  The client's collaborators are the network client and the Signer. An operation of the
  client is modelled by the calls it makes to them, in order, and by the way its promise
  settles.
\<close>

datatype call =
    GetAccountInfoCall GetAccountInfoRequest
  | GetFeeCall GetFeeRequest
  | SubmitSignedTransactionCall SubmitSignedTransactionRequest
  | SignTransactionCall Transaction Wallet

type_synonym 'a async = "call list \<times> (Error, 'a) promise"

text \<open>\<open>p.then(f)\<close> with a fulfilment handler only: a rejection of \<open>p\<close> skips \<open>f\<close>.\<close>

definition then_async :: "'a async \<Rightarrow> ('a \<Rightarrow> 'b async) \<Rightarrow> 'b async" where
  "then_async p f =
     (case p of
        (calls, Rejected e) \<Rightarrow> (calls, Rejected e)
      | (calls, Resolved v) \<Rightarrow> (case f v of (calls', outcome) \<Rightarrow> (calls @ calls', outcome)))"

text \<open>
  \<open>Signer.signTransaction\<close> is an external collaborator: it throws, or returns a signed
  transaction or \<open>undefined\<close>.
\<close>

datatype signing = Throws Error | Returns "SignedTransaction option"

type_synonym Signer = "Transaction \<Rightarrow> Wallet \<Rightarrow> signing"

definition malformedResponse :: string where
  "malformedResponse = ''Malformed Response.''"

definition signingFailure :: string where
  "signingFailure = ''Unable to sign the transaction''"

definition XpringClient_getAccountInfo :: "LegacyNetworkClient \<Rightarrow> string \<Rightarrow> AccountInfo async" where
  "XpringClient_getAccountInfo networkClient address =
     (let getAccountInfoRequest = \<lparr>GetAccountInfoRequest_address = address\<rparr>
      in ([GetAccountInfoCall getAccountInfoRequest],
          getAccountInfo networkClient getAccountInfoRequest))"

definition XpringClient_getFee :: "LegacyNetworkClient \<Rightarrow> XRPAmount async" where
  "XpringClient_getFee networkClient =
     (let getFeeRequest = GetFeeRequest
      in then_async ([GetFeeCall getFeeRequest], getFee networkClient getFeeRequest)
           (\<lambda>fee. case Fee_amount fee of
                     None \<Rightarrow> ([], Rejected (Error malformedResponse))
                   | Some feeAmount \<Rightarrow> ([], Resolved feeAmount)))"

definition XpringClient_getBalance :: "LegacyNetworkClient \<Rightarrow> string \<Rightarrow> XRPAmount async" where
  "XpringClient_getBalance networkClient address =
     then_async (XpringClient_getAccountInfo networkClient address)
       (\<lambda>accountInfo. case AccountInfo_balance accountInfo of
                         None \<Rightarrow> ([], Rejected (Error malformedResponse))
                       | Some balance \<Rightarrow> ([], Resolved balance))"

definition XpringClient_send ::
  "LegacyNetworkClient \<Rightarrow> Signer \<Rightarrow> Wallet \<Rightarrow> XRPAmount \<Rightarrow> string
     \<Rightarrow> SubmitSignedTransactionResponse async" where
  "XpringClient_send networkClient signTransaction sender amount destination =
     then_async (XpringClient_getFee networkClient) (\<lambda>fee.
       then_async (XpringClient_getAccountInfo networkClient (Wallet_address sender))
         (\<lambda>accountInfo.
            case AccountInfo_sequence accountInfo of
              None \<Rightarrow> ([], Rejected (Error malformedResponse))
            | Some sequence \<Rightarrow>
                (let payment = \<lparr>Payment_xrpAmount = amount, Payment_destination = destination\<rparr>;
                     transaction = \<lparr>Transaction_account = Wallet_address sender,
                                    Transaction_fee = fee,
                                    Transaction_sequence = sequence,
                                    Transaction_payment = payment\<rparr>
                 in case signTransaction transaction sender of
                      Throws signingError \<Rightarrow>
                        ([SignTransactionCall transaction sender],
                         Rejected (Error (signingFailure @ ''. '' @ message signingError)))
                    | Returns None \<Rightarrow>
                        ([SignTransactionCall transaction sender],
                         Rejected (Error signingFailure))
                    | Returns (Some signedTransaction) \<Rightarrow>
                        (let submitSignedTransactionRequest =
                               \<lparr>SubmitSignedTransactionRequest_signedTransaction = signedTransaction\<rparr>
                         in ([SignTransactionCall transaction sender,
                              SubmitSignedTransactionCall submitSignedTransactionRequest],
                             submitSignedTransaction networkClient
                               submitSignedTransactionRequest)))))"

section \<open>DefaultXpringClient\<close>

text \<open>
  The messages of the current protocol (\<open>generated/rpc/v1\<close>); where a name is also a
  legacy message's, it carries the suffix \<open>_v1\<close>. Amounts are non-negative integers.
\<close>

record XRPDropsAmount =
  XRPDropsAmount_drops :: nat

text \<open>
  The JavaScript values a getter of a generated class can yield, as far as the tests
  \<open>!balance\<close> and \<open>!minimumFee\<close> tell them apart: \<open>undefined\<close>, \<open>null\<close>, an integral
  number, a string, or an amount message (an object).
\<close>

datatype jsvalue =
    JSUndefined
  | JSNull
  | JSNumber int
  | JSString string
  | JSMessage XRPDropsAmount

text \<open>JavaScript's truthiness, which \<open>!x\<close> negates: an object is always truthy.\<close>

fun truthy :: "jsvalue \<Rightarrow> bool" where
  "truthy JSUndefined = False"
| "truthy JSNull = False"
| "truthy (JSNumber n) = (n \<noteq> 0)"
| "truthy (JSString s) = (s \<noteq> [])"
| "truthy (JSMessage m) = True"

record AccountAddress =
  AccountAddress_address :: string

record GetAccountInfoRequest_v1 =
  GetAccountInfoRequest_account :: "AccountAddress option"

record AccountRoot =
  AccountRoot_balance :: jsvalue

record GetAccountInfoResponse =
  GetAccountInfoResponse_accountData :: "AccountRoot option"

datatype GetFeeRequest_v1 = GetFeeRequest_v1

record FeeLevels =
  FeeLevels_minimumFee :: jsvalue

record GetFeeResponse =
  GetFeeResponse_drops :: "FeeLevels option"

record NetworkClient =
  NetworkClient_getAccountInfo ::
    "GetAccountInfoRequest_v1 \<Rightarrow> (Error, GetAccountInfoResponse) promise"
  NetworkClient_getFee :: "GetFeeRequest_v1 \<Rightarrow> (Error, GetFeeResponse) promise"

datatype call_v1 =
    GetAccountInfoCall_v1 GetAccountInfoRequest_v1
  | GetFeeCall_v1 GetFeeRequest_v1

type_synonym 'a async_v1 = "call_v1 list \<times> (Error, 'a) promise"

definition unimplemented :: string where
  "unimplemented = ''Unimplemented.''"

definition xAddressRequired :: string where
  "xAddressRequired = ''Please use the X-Address format. See: https://xrpaddress.info/.''"

text \<open>
  \<open>Utils.isValidXAddress\<close> and the built-in \<open>BigInt\<close> conversion (which throws on a
  value it cannot convert) are collaborators outside the sources: parameters.
\<close>

definition DefaultXpringClient_getBalance ::
  "(string \<Rightarrow> bool) \<Rightarrow> (jsvalue \<Rightarrow> (Error, int) promise) \<Rightarrow> NetworkClient \<Rightarrow> string
     \<Rightarrow> int async_v1" where
  "DefaultXpringClient_getBalance isValidXAddress BigInt networkClient address =
     (if \<not> isValidXAddress address then ([], Rejected (Error xAddressRequired))
      else
        (let account = \<lparr>AccountAddress_address = address\<rparr>;
             request = \<lparr>GetAccountInfoRequest_account = Some account\<rparr>
         in case NetworkClient_getAccountInfo networkClient request of
              Rejected e \<Rightarrow> ([GetAccountInfoCall_v1 request], Rejected e)
            | Resolved accountInfo \<Rightarrow>
                (case GetAccountInfoResponse_accountData accountInfo of
                   None \<Rightarrow> ([GetAccountInfoCall_v1 request], Rejected (Error malformedResponse))
                 | Some accountData \<Rightarrow>
                     (let balance = AccountRoot_balance accountData
                      in if \<not> truthy balance
                         then ([GetAccountInfoCall_v1 request], Rejected (Error malformedResponse))
                         else ([GetAccountInfoCall_v1 request], BigInt balance)))))"

definition DefaultXpringClient_getTransactionStatus ::
  "NetworkClient \<Rightarrow> string \<Rightarrow> 'status async_v1" where
  "DefaultXpringClient_getTransactionStatus networkClient transactionHash =
     ([], Rejected (Error unimplemented))"

definition DefaultXpringClient_send ::
  "NetworkClient \<Rightarrow> 'amount \<Rightarrow> string \<Rightarrow> Wallet \<Rightarrow> string async_v1" where
  "DefaultXpringClient_send networkClient amount destination sender =
     ([], Rejected (Error unimplemented))"



definition DefaultXpringClient_getFee :: "NetworkClient \<Rightarrow> jsvalue async_v1" where
  "DefaultXpringClient_getFee networkClient =
     (let getFeeRequest = GetFeeRequest_v1
      in case NetworkClient_getFee networkClient getFeeRequest of
           Rejected e \<Rightarrow> ([GetFeeCall_v1 getFeeRequest], Rejected e)
         | Resolved getFeeResponse' \<Rightarrow>
             (case GetFeeResponse_drops getFeeResponse' of
                None \<Rightarrow> ([GetFeeCall_v1 getFeeRequest], Rejected (Error malformedResponse))
              | Some fee \<Rightarrow>
                  (let minimumFee = FeeLevels_minimumFee fee
                   in if \<not> truthy minimumFee
                      then ([GetFeeCall_v1 getFeeRequest], Rejected (Error malformedResponse))
                      else ([GetFeeCall_v1 getFeeRequest], Resolved minimumFee))))"

section \<open>The gRPC network clients\<close>

text \<open>
  The generated stub reports through a callback \<open>(error, response)\<close>; either argument
  may be \<open>null\<close> or \<open>undefined\<close>. A stub method is modelled by the arguments it hands to
  the callback for a request. The promise settles with what \<open>reject\<close> or \<open>resolve\<close>
  received; the model describes that settlement, for a stub that does invoke the callback.
\<close>

datatype 'a nullable = Null | Undefined | Defined 'a

text \<open>\<open>x == null\<close> holds of \<open>null\<close> and of \<open>undefined\<close>; \<open>x === null\<close> of \<open>null\<close> only.\<close>

fun loosely_null :: "'a nullable \<Rightarrow> bool" where
  "loosely_null Null = True"
| "loosely_null Undefined = True"
| "loosely_null (Defined v) = False"

fun strictly_null :: "'a nullable \<Rightarrow> bool" where
  "strictly_null Null = True"
| "strictly_null Undefined = False"
| "strictly_null (Defined v) = False"

type_synonym ('req, 'e, 'r) stub = "'req \<Rightarrow> 'e nullable \<times> 'r nullable"

definition LegacyGRPCNetworkClient_getAccountInfo ::
  "('req, 'e, 'r) stub \<Rightarrow> 'req \<Rightarrow> ('e nullable, 'r nullable) promise" where
  "LegacyGRPCNetworkClient_getAccountInfo grpcClient_getAccountInfo getAccountInfoRequest =
     (case grpcClient_getAccountInfo getAccountInfoRequest of
        (error, response) \<Rightarrow>
          if \<not> loosely_null error \<or> loosely_null response then Rejected error
          else Resolved response)"

definition LegacyGRPCNetworkClient_getFee ::
  "('req, 'e, 'r) stub \<Rightarrow> 'req \<Rightarrow> ('e nullable, 'r nullable) promise" where
  "LegacyGRPCNetworkClient_getFee grpcClient_getFee getFeeRequest =
     (case grpcClient_getFee getFeeRequest of
        (error, response) \<Rightarrow>
          if \<not> loosely_null error \<or> loosely_null response then Rejected error
          else Resolved response)"

definition LegacyGRPCNetworkClient_submitSignedTransaction ::
  "('req, 'e, 'r) stub \<Rightarrow> 'req \<Rightarrow> ('e nullable, 'r nullable) promise" where
  "LegacyGRPCNetworkClient_submitSignedTransaction grpcClient_submitSignedTransaction
       submitSignedTransactionRequest =
     (case grpcClient_submitSignedTransaction submitSignedTransactionRequest of
        (error, response) \<Rightarrow>
          if \<not> strictly_null error \<or> strictly_null response then Rejected error
          else Resolved response)"

definition LegacyGRPCNetworkClient_getLatestValidatedLedgerSequence ::
  "('req, 'e, 'r) stub \<Rightarrow> 'req \<Rightarrow> ('e nullable, 'r nullable) promise" where
  "LegacyGRPCNetworkClient_getLatestValidatedLedgerSequence
       grpcClient_getLatestValidatedLedgerSequence getLatestValidatedLedgerSequenceRequest =
     (case grpcClient_getLatestValidatedLedgerSequence getLatestValidatedLedgerSequenceRequest of
        (error, response) \<Rightarrow>
          if \<not> loosely_null error \<or> loosely_null response then Rejected error
          else Resolved response)"

definition LegacyGRPCNetworkClient_getTransactionStatus ::
  "('req, 'e, 'r) stub \<Rightarrow> 'req \<Rightarrow> ('e nullable, 'r nullable) promise" where
  "LegacyGRPCNetworkClient_getTransactionStatus grpcClient_getTransactionStatus
       getTransactionStatusRequest =
     (case grpcClient_getTransactionStatus getTransactionStatusRequest of
        (error, response) \<Rightarrow>
          if \<not> loosely_null error \<or> loosely_null response then Rejected error
          else Resolved response)"

definition GRPCNetworkClient_getAccountInfo ::
  "('req, 'e, 'r) stub \<Rightarrow> 'req \<Rightarrow> ('e nullable, 'r nullable) promise" where
  "GRPCNetworkClient_getAccountInfo grpcClient_getAccountInfo accountInfoRequest =
     (case grpcClient_getAccountInfo accountInfoRequest of
        (error, response) \<Rightarrow>
          if \<not> loosely_null error \<or> loosely_null response then Rejected error
          else Resolved response)"

definition GRPCNetworkClient_injectOperation ::
  "('req, 'e, 'r) stub \<Rightarrow> 'req \<Rightarrow> ('e nullable, 'r nullable) promise" where
  "GRPCNetworkClient_injectOperation grpcClient_inject injectionRequest =
     (case grpcClient_inject injectionRequest of
        (error, response) \<Rightarrow>
          if \<not> loosely_null error \<or> loosely_null response then Rejected error
          else Resolved response)"

section \<open>Notions used in the statements\<close>

text \<open>The four collaborator steps of \<open>send\<close>, and the step a logged call belongs to.\<close>

datatype step = FetchFee | FetchAccountInfo | Sign | Submit

fun step_of :: "call \<Rightarrow> step" where
  "step_of (GetFeeCall r) = FetchFee"
| "step_of (GetAccountInfoCall r) = FetchAccountInfo"
| "step_of (SignTransactionCall t w) = Sign"
| "step_of (SubmitSignedTransactionCall r) = Submit"

text \<open>
  The Transaction that \<open>send\<close> assembles from the sender, the fetched fee, the fetched
  sequence number and the payment.
\<close>

definition assemble :: "Wallet \<Rightarrow> XRPAmount \<Rightarrow> nat \<Rightarrow> XRPAmount \<Rightarrow> string \<Rightarrow> Transaction" where
  "assemble sender fee sequence amount destination =
     \<lparr>Transaction_account = Wallet_address sender,
      Transaction_fee = fee,
      Transaction_sequence = sequence,
      Transaction_payment =
        \<lparr>Payment_xrpAmount = amount, Payment_destination = destination\<rparr>\<rparr>"

text \<open>Stubs for the Signer, and a wallet and an amount to run the client on.\<close>

definition signingStub :: Signer where
  "signingStub transaction wallet = Returns (Some (SignedTransaction ''SIGNED''))"

definition throwingStub :: Signer where
  "throwingStub transaction wallet = Throws (Error ''no private key'')"

definition undefinedStub :: Signer where
  "undefinedStub transaction wallet = Returns None"

definition testWallet :: Wallet where
  "testWallet = \<lparr>Wallet_address = ''XVfC9CTCJh6GN2x8bnrw3LtdbqiVCUFyQVMzRrMGUZpokKH''\<rparr>"

definition oneDrop :: XRPAmount where
  "oneDrop = \<lparr>XRPAmount_drops = ''1''\<rparr>"

text \<open>Fake responses with one slot changed, for running the client on.\<close>

definition accountWithoutBalance :: FakeLegacyNetworkClientResponses where
  "accountWithoutBalance =
     defaultErrorResponses\<lparr>getAccountInfoResponse :=
       Success \<lparr>AccountInfo_balance = None, AccountInfo_sequence = Some 7\<rparr>\<rparr>"

definition submissionFails :: FakeLegacyNetworkClientResponses where
  "submissionFails =
     defaultSuccessfulResponses\<lparr>submitSignedTransactionResponse := Failure defaultError\<rparr>"

text \<open>
  Stand-ins for the collaborators of \<open>DefaultXpringClient\<close>: an address check, a
  \<open>BigInt\<close> conversion defined on numbers, and a network client whose account balance
  and minimum fee are both the given value.
\<close>

definition startsWithX :: "string \<Rightarrow> bool" where
  "startsWithX address = (case address of [] \<Rightarrow> False | c # cs \<Rightarrow> c = CHR ''X'')"

definition numberToBigInt :: "jsvalue \<Rightarrow> (Error, int) promise" where
  "numberToBigInt v =
     (case v of JSNumber n \<Rightarrow> Resolved n | _ \<Rightarrow> Rejected (Error ''Cannot convert to a BigInt''))"

definition respondingWith :: "jsvalue \<Rightarrow> NetworkClient" where
  "respondingWith balance =
     \<lparr>NetworkClient_getAccountInfo =
        (\<lambda>request. Resolved \<lparr>GetAccountInfoResponse_accountData =
                                Some \<lparr>AccountRoot_balance = balance\<rparr>\<rparr>),
      NetworkClient_getFee =
        (\<lambda>request. Resolved \<lparr>GetFeeResponse_drops =
                                Some \<lparr>FeeLevels_minimumFee = balance\<rparr>\<rparr>)\<rparr>"


text \<open>
  Stubs of the generated gRPC client: one reports no error and hands over no response,
  one hands over a response with \<open>undefined\<close> in the place of the error.
\<close>

definition noPayloadStub ::
  "(SubmitSignedTransactionRequest, Error, SubmitSignedTransactionResponse) stub" where
  "noPayloadStub request = (Null, Undefined)"

definition undefinedErrorStub ::
  "(SubmitSignedTransactionRequest, Error, SubmitSignedTransactionResponse) stub" where
  "undefinedErrorStub request = (Undefined, Defined defaultSubmitSignedTransactionResponse)"

section \<open>The send pipeline, case by case\<close>

lemmas send_defs =
  XpringClient_send_def XpringClient_getFee_def XpringClient_getAccountInfo_def then_async_def
  Let_def

lemma send_fee_rejected:
  assumes "getFee networkClient GetFeeRequest = Rejected e"
  shows "XpringClient_send networkClient signTransaction sender amount destination =
           ([GetFeeCall GetFeeRequest], Rejected e)"
  using assms by (simp add: send_defs)

lemma send_fee_malformed:
  assumes "getFee networkClient GetFeeRequest = Resolved fee" and "Fee_amount fee = None"
  shows "XpringClient_send networkClient signTransaction sender amount destination =
           ([GetFeeCall GetFeeRequest], Rejected (Error malformedResponse))"
  using assms by (simp add: send_defs)

lemma send_account_rejected:
  assumes "getFee networkClient GetFeeRequest = Resolved fee" and "Fee_amount fee = Some feeAmount"
    and "getAccountInfo networkClient \<lparr>GetAccountInfoRequest_address = Wallet_address sender\<rparr>
           = Rejected e"
  shows "XpringClient_send networkClient signTransaction sender amount destination =
           ([GetFeeCall GetFeeRequest,
             GetAccountInfoCall \<lparr>GetAccountInfoRequest_address = Wallet_address sender\<rparr>],
            Rejected e)"
  using assms by (simp add: send_defs)

lemma send_account_malformed:
  assumes "getFee networkClient GetFeeRequest = Resolved fee" and "Fee_amount fee = Some feeAmount"
    and "getAccountInfo networkClient \<lparr>GetAccountInfoRequest_address = Wallet_address sender\<rparr>
           = Resolved accountInfo"
    and "AccountInfo_sequence accountInfo = None"
  shows "XpringClient_send networkClient signTransaction sender amount destination =
           ([GetFeeCall GetFeeRequest,
             GetAccountInfoCall \<lparr>GetAccountInfoRequest_address = Wallet_address sender\<rparr>],
            Rejected (Error malformedResponse))"
  using assms by (simp add: send_defs)

lemma send_signer_throws:
  assumes "getFee networkClient GetFeeRequest = Resolved fee" and "Fee_amount fee = Some feeAmount"
    and "getAccountInfo networkClient \<lparr>GetAccountInfoRequest_address = Wallet_address sender\<rparr>
           = Resolved accountInfo"
    and "AccountInfo_sequence accountInfo = Some sequence"
    and "signTransaction (assemble sender feeAmount sequence amount destination) sender
           = Throws signingError"
  shows "XpringClient_send networkClient signTransaction sender amount destination =
           ([GetFeeCall GetFeeRequest,
             GetAccountInfoCall \<lparr>GetAccountInfoRequest_address = Wallet_address sender\<rparr>,
             SignTransactionCall (assemble sender feeAmount sequence amount destination) sender],
            Rejected (Error (signingFailure @ ''. '' @ message signingError)))"
  using assms by (simp add: send_defs assemble_def)

lemma send_signer_undefined:
  assumes "getFee networkClient GetFeeRequest = Resolved fee" and "Fee_amount fee = Some feeAmount"
    and "getAccountInfo networkClient \<lparr>GetAccountInfoRequest_address = Wallet_address sender\<rparr>
           = Resolved accountInfo"
    and "AccountInfo_sequence accountInfo = Some sequence"
    and "signTransaction (assemble sender feeAmount sequence amount destination) sender
           = Returns None"
  shows "XpringClient_send networkClient signTransaction sender amount destination =
           ([GetFeeCall GetFeeRequest,
             GetAccountInfoCall \<lparr>GetAccountInfoRequest_address = Wallet_address sender\<rparr>,
             SignTransactionCall (assemble sender feeAmount sequence amount destination) sender],
            Rejected (Error signingFailure))"
  using assms by (simp add: send_defs assemble_def)

lemma send_submitted:
  assumes "getFee networkClient GetFeeRequest = Resolved fee" and "Fee_amount fee = Some feeAmount"
    and "getAccountInfo networkClient \<lparr>GetAccountInfoRequest_address = Wallet_address sender\<rparr>
           = Resolved accountInfo"
    and "AccountInfo_sequence accountInfo = Some sequence"
    and "signTransaction (assemble sender feeAmount sequence amount destination) sender
           = Returns (Some signed)"
  shows "XpringClient_send networkClient signTransaction sender amount destination =
           ([GetFeeCall GetFeeRequest,
             GetAccountInfoCall \<lparr>GetAccountInfoRequest_address = Wallet_address sender\<rparr>,
             SignTransactionCall (assemble sender feeAmount sequence amount destination) sender,
             SubmitSignedTransactionCall
               \<lparr>SubmitSignedTransactionRequest_signedTransaction = signed\<rparr>],
            submitSignedTransaction networkClient
              \<lparr>SubmitSignedTransactionRequest_signedTransaction = signed\<rparr>)"
  using assms by (simp add: send_defs assemble_def)

lemma send_steps_prefix:
  "prefix (map step_of (fst (XpringClient_send networkClient signTransaction sender amount destination)))
     [FetchFee, FetchAccountInfo, Sign, Submit]"
  by (simp add: send_defs split: promise.splits option.splits signing.splits prod.splits)

lemma send_submit_only_after_success:
  assumes "SubmitSignedTransactionCall request
             \<in> set (fst (XpringClient_send networkClient signTransaction sender amount destination))"
  shows "\<exists>fee feeAmount accountInfo sequence.
           getFee networkClient GetFeeRequest = Resolved fee
         \<and> Fee_amount fee = Some feeAmount
         \<and> getAccountInfo networkClient
              \<lparr>GetAccountInfoRequest_address = Wallet_address sender\<rparr> = Resolved accountInfo
         \<and> AccountInfo_sequence accountInfo = Some sequence
         \<and> signTransaction (assemble sender feeAmount sequence amount destination) sender
              = Returns (Some (SubmitSignedTransactionRequest_signedTransaction request))"
  using assms
  by (auto simp add: send_defs assemble_def
      split: promise.splits option.splits signing.splits prod.splits)

section \<open>The fake network client\<close>

lemmas fake_defs =
  FakeLegacyNetworkClient_def FakeLegacyNetworkClient_getAccountInfo_def
  FakeLegacyNetworkClient_getFee_def FakeLegacyNetworkClient_submitSignedTransaction_def
  FakeLegacyNetworkClient_getLatestValidatedLedgerSequence_def
  FakeLegacyNetworkClient_getTransactionStatus_def

lemma fake_default_getFee:
  "getFee (FakeLegacyNetworkClient defaultSuccessfulResponses) request =
     Resolved \<lparr>Fee_amount = Some \<lparr>XRPAmount_drops = ''10''\<rparr>\<rparr>"
  by (simp add: fake_defs defaultSuccessfulResponses_def defaultFeeResponse_def)

lemma fake_default_getAccountInfo:
  "getAccountInfo (FakeLegacyNetworkClient defaultSuccessfulResponses) request =
     Resolved \<lparr>AccountInfo_balance = Some \<lparr>XRPAmount_drops = ''4000''\<rparr>,
               AccountInfo_sequence = Some 0\<rparr>"
  by (simp add: fake_defs defaultSuccessfulResponses_def defaultAccountInfoResponse_def
      new_AccountInfo_def)

lemma fake_default_submitSignedTransaction:
  "submitSignedTransaction (FakeLegacyNetworkClient defaultSuccessfulResponses) request =
     Resolved defaultSubmitSignedTransactionResponse"
  by (simp add: fake_defs defaultSuccessfulResponses_def)

lemma fake_error_getFee:
  "getFee (FakeLegacyNetworkClient defaultErrorResponses) request = Rejected defaultError"
  by (simp add: fake_defs defaultErrorResponses_def)

lemma fake_error_getAccountInfo:
  "getAccountInfo (FakeLegacyNetworkClient defaultErrorResponses) request = Rejected defaultError"
  by (simp add: fake_defs defaultErrorResponses_def)

lemma fake_getFee:
  "getFee (FakeLegacyNetworkClient responses) request =
     (case getFeeResponse responses of Failure e \<Rightarrow> Rejected e | Success v \<Rightarrow> Resolved v)"
  by (simp add: fake_defs)

lemma fake_getAccountInfo:
  "getAccountInfo (FakeLegacyNetworkClient responses) request =
     (case getAccountInfoResponse responses of Failure e \<Rightarrow> Rejected e | Success v \<Rightarrow> Resolved v)"
  by (simp add: fake_defs)

lemma fake_submitSignedTransaction:
  "submitSignedTransaction (FakeLegacyNetworkClient responses) request =
     (case submitSignedTransactionResponse responses of
        Failure e \<Rightarrow> Rejected e | Success v \<Rightarrow> Resolved v)"
  by (simp add: fake_defs)

lemma fake_getLatestValidatedLedgerSequence:
  "getLatestValidatedLedgerSequence (FakeLegacyNetworkClient responses) request =
     (case getLatestValidatedLedgerSequenceResponse responses of
        Failure e \<Rightarrow> Rejected e | Success v \<Rightarrow> Resolved v)"
  by (simp add: fake_defs)

lemma fake_getTransactionStatus:
  "getTransactionStatus (FakeLegacyNetworkClient responses) request =
     (case getTransactionStatusResponse responses of
        Failure e \<Rightarrow> Rejected e | Success v \<Rightarrow> Resolved v)"
  by (simp add: fake_defs)

lemmas fake_ops =
  fake_getFee fake_getAccountInfo fake_submitSignedTransaction
  fake_getLatestValidatedLedgerSequence fake_getTransactionStatus

lemmas response_defs =
  defaultSuccessfulResponses_def defaultErrorResponses_def defaultFeeResponse_def
  defaultAccountInfoResponse_def new_AccountInfo_def

section \<open>The gRPC network clients: settlement\<close>

lemmas grpc_defs =
  LegacyGRPCNetworkClient_getAccountInfo_def LegacyGRPCNetworkClient_getFee_def
  LegacyGRPCNetworkClient_submitSignedTransaction_def
  LegacyGRPCNetworkClient_getLatestValidatedLedgerSequence_def
  LegacyGRPCNetworkClient_getTransactionStatus_def
  GRPCNetworkClient_getAccountInfo_def GRPCNetworkClient_injectOperation_def

text \<open>
  The operations that compare with \<open>!= null\<close> and \<open>== null\<close> reject with the stub's
  error exactly when the stub reports an error or hands over no response, and resolve
  with the response otherwise.
\<close>

lemma loose_operations_settle:
  assumes "stub request = (error, response)"
  shows "LegacyGRPCNetworkClient_getAccountInfo stub request =
           (if (\<exists>e. error = Defined e) \<or> response = Null \<or> response = Undefined
            then Rejected error else Resolved response)"
    and "LegacyGRPCNetworkClient_getFee stub request =
           (if (\<exists>e. error = Defined e) \<or> response = Null \<or> response = Undefined
            then Rejected error else Resolved response)"
    and "LegacyGRPCNetworkClient_getLatestValidatedLedgerSequence stub request =
           (if (\<exists>e. error = Defined e) \<or> response = Null \<or> response = Undefined
            then Rejected error else Resolved response)"
    and "LegacyGRPCNetworkClient_getTransactionStatus stub request =
           (if (\<exists>e. error = Defined e) \<or> response = Null \<or> response = Undefined
            then Rejected error else Resolved response)"
    and "GRPCNetworkClient_getAccountInfo stub request =
           (if (\<exists>e. error = Defined e) \<or> response = Null \<or> response = Undefined
            then Rejected error else Resolved response)"
    and "GRPCNetworkClient_injectOperation stub request =
           (if (\<exists>e. error = Defined e) \<or> response = Null \<or> response = Undefined
            then Rejected error else Resolved response)"
  using assms by (cases error; cases response; simp add: grpc_defs)+

section \<open>Properties\<close>

text \<open>
  C1 (amended). For the legacy client on the fake with the default all-success
  responses, the Transaction passed to the Signer carries fee = 10 drops and
  sequence = 0: the default account info sets a balance and no sequence, and the 12
  among the defaults is the ledger sequence index, which \<open>send\<close> does not read. With a
  Signer that returns a signed transaction, \<open>send\<close> resolves with the fake's default
  submission result (engineResult tesSUCCESS, transaction blob DEADBEEF).
\<close>

theorem send_default_responses:
  "take 3 (fst (XpringClient_send (FakeLegacyNetworkClient defaultSuccessfulResponses)
                  signTransaction sender amount destination)) =
     [GetFeeCall GetFeeRequest,
      GetAccountInfoCall \<lparr>GetAccountInfoRequest_address = Wallet_address sender\<rparr>,
      SignTransactionCall
        \<lparr>Transaction_account = Wallet_address sender,
         Transaction_fee = \<lparr>XRPAmount_drops = ''10''\<rparr>,
         Transaction_sequence = 0,
         Transaction_payment =
           \<lparr>Payment_xrpAmount = amount, Payment_destination = destination\<rparr>\<rparr>
        sender]
   \<and> (\<forall>signed.
        signTransaction
          \<lparr>Transaction_account = Wallet_address sender,
           Transaction_fee = \<lparr>XRPAmount_drops = ''10''\<rparr>,
           Transaction_sequence = 0,
           Transaction_payment =
             \<lparr>Payment_xrpAmount = amount, Payment_destination = destination\<rparr>\<rparr>
          sender = Returns (Some signed) \<longrightarrow>
        XpringClient_send (FakeLegacyNetworkClient defaultSuccessfulResponses)
            signTransaction sender amount destination =
          ([GetFeeCall GetFeeRequest,
            GetAccountInfoCall \<lparr>GetAccountInfoRequest_address = Wallet_address sender\<rparr>,
            SignTransactionCall
              \<lparr>Transaction_account = Wallet_address sender,
               Transaction_fee = \<lparr>XRPAmount_drops = ''10''\<rparr>,
               Transaction_sequence = 0,
               Transaction_payment =
                 \<lparr>Payment_xrpAmount = amount, Payment_destination = destination\<rparr>\<rparr>
              sender,
            SubmitSignedTransactionCall
              \<lparr>SubmitSignedTransactionRequest_signedTransaction = signed\<rparr>],
           Resolved defaultSubmitSignedTransactionResponse))
   \<and> engineResult defaultSubmitSignedTransactionResponse = ''tesSUCCESS''
   \<and> transactionBlob defaultSubmitSignedTransactionResponse = ''DEADBEEF''"
proof (intro conjI allI impI)
  show "take 3 (fst (XpringClient_send (FakeLegacyNetworkClient defaultSuccessfulResponses)
                  signTransaction sender amount destination)) =
     [GetFeeCall GetFeeRequest,
      GetAccountInfoCall \<lparr>GetAccountInfoRequest_address = Wallet_address sender\<rparr>,
      SignTransactionCall
        \<lparr>Transaction_account = Wallet_address sender,
         Transaction_fee = \<lparr>XRPAmount_drops = ''10''\<rparr>,
         Transaction_sequence = 0,
         Transaction_payment =
           \<lparr>Payment_xrpAmount = amount, Payment_destination = destination\<rparr>\<rparr>
        sender]"
    by (simp add: send_defs fake_default_getFee fake_default_getAccountInfo
        split: signing.splits option.splits)
next
  fix signed
  assume "signTransaction
          \<lparr>Transaction_account = Wallet_address sender,
           Transaction_fee = \<lparr>XRPAmount_drops = ''10''\<rparr>,
           Transaction_sequence = 0,
           Transaction_payment =
             \<lparr>Payment_xrpAmount = amount, Payment_destination = destination\<rparr>\<rparr>
          sender = Returns (Some signed)"
  then show "XpringClient_send (FakeLegacyNetworkClient defaultSuccessfulResponses)
            signTransaction sender amount destination =
          ([GetFeeCall GetFeeRequest,
            GetAccountInfoCall \<lparr>GetAccountInfoRequest_address = Wallet_address sender\<rparr>,
            SignTransactionCall
              \<lparr>Transaction_account = Wallet_address sender,
               Transaction_fee = \<lparr>XRPAmount_drops = ''10''\<rparr>,
               Transaction_sequence = 0,
               Transaction_payment =
                 \<lparr>Payment_xrpAmount = amount, Payment_destination = destination\<rparr>\<rparr>
              sender,
            SubmitSignedTransactionCall
              \<lparr>SubmitSignedTransactionRequest_signedTransaction = signed\<rparr>],
           Resolved defaultSubmitSignedTransactionResponse)"
    by (simp add: send_defs fake_default_getFee fake_default_getAccountInfo
        fake_default_submitSignedTransaction)
qed (simp_all add: defaultSubmitSignedTransactionResponse_def)

theorem send_default_responses_witness:
  "XpringClient_send (FakeLegacyNetworkClient defaultSuccessfulResponses)
       signingStub testWallet oneDrop ''X7cBcY4bdTTzk3LHmrKAK6GyrirkXfLHGFxzke5zTmYMfw4'' =
     ([GetFeeCall GetFeeRequest,
       GetAccountInfoCall \<lparr>GetAccountInfoRequest_address = Wallet_address testWallet\<rparr>,
       SignTransactionCall
         \<lparr>Transaction_account = Wallet_address testWallet,
          Transaction_fee = \<lparr>XRPAmount_drops = ''10''\<rparr>,
          Transaction_sequence = 0,
          Transaction_payment =
            \<lparr>Payment_xrpAmount = oneDrop,
             Payment_destination = ''X7cBcY4bdTTzk3LHmrKAK6GyrirkXfLHGFxzke5zTmYMfw4''\<rparr>\<rparr>
         testWallet,
       SubmitSignedTransactionCall
         \<lparr>SubmitSignedTransactionRequest_signedTransaction = SignedTransaction ''SIGNED''\<rparr>],
      Resolved defaultSubmitSignedTransactionResponse)"
proof -
  have signs: "signingStub transaction testWallet = Returns (Some (SignedTransaction ''SIGNED''))"
    for transaction
    by (simp add: signingStub_def)
  show ?thesis
    by (rule send_default_responses [of signingStub testWallet oneDrop
          "''X7cBcY4bdTTzk3LHmrKAK6GyrirkXfLHGFxzke5zTmYMfw4''",
          THEN conjunct2, THEN conjunct1, rule_format, OF signs])
qed

text \<open>
  C1 as stated fails: with the default responses and a Signer that signs, the
  Transaction handed to the Signer carries sequence 0, not 12.
\<close>

theorem send_default_responses_counterexample:
  "fst (XpringClient_send (FakeLegacyNetworkClient defaultSuccessfulResponses)
       signingStub testWallet oneDrop ''X7cBcY4bdTTzk3LHmrKAK6GyrirkXfLHGFxzke5zTmYMfw4'') =
     [GetFeeCall GetFeeRequest,
      GetAccountInfoCall \<lparr>GetAccountInfoRequest_address = Wallet_address testWallet\<rparr>,
      SignTransactionCall
        \<lparr>Transaction_account = Wallet_address testWallet,
         Transaction_fee = \<lparr>XRPAmount_drops = ''10''\<rparr>,
         Transaction_sequence = 0,
         Transaction_payment =
           \<lparr>Payment_xrpAmount = oneDrop,
            Payment_destination = ''X7cBcY4bdTTzk3LHmrKAK6GyrirkXfLHGFxzke5zTmYMfw4''\<rparr>\<rparr>
        testWallet,
      SubmitSignedTransactionCall
        \<lparr>SubmitSignedTransactionRequest_signedTransaction = SignedTransaction ''SIGNED''\<rparr>]
   \<and> SignTransactionCall
        \<lparr>Transaction_account = Wallet_address testWallet,
         Transaction_fee = \<lparr>XRPAmount_drops = ''10''\<rparr>,
         Transaction_sequence = 12,
         Transaction_payment =
           \<lparr>Payment_xrpAmount = oneDrop,
            Payment_destination = ''X7cBcY4bdTTzk3LHmrKAK6GyrirkXfLHGFxzke5zTmYMfw4''\<rparr>\<rparr>
        testWallet
      \<notin> set (fst (XpringClient_send (FakeLegacyNetworkClient defaultSuccessfulResponses)
         signingStub testWallet oneDrop ''X7cBcY4bdTTzk3LHmrKAK6GyrirkXfLHGFxzke5zTmYMfw4''))"
  by (simp add: send_defs fake_default_getFee fake_default_getAccountInfo signingStub_def)

text \<open>
  C2 (amended). \<open>DefaultXpringClient.getBalance\<close> rejects every address that fails
  \<open>Utils.isValidXAddress\<close> with the X-Address-required error before any backend
  operation is invoked. The legacy \<open>XpringClient\<close> checks no address: whatever the
  address, its \<open>getBalance\<close> calls \<open>getAccountInfo\<close> and its \<open>send\<close> begins by
  calling \<open>getFee\<close>.
\<close>

theorem getBalance_invalid_address:
  "(\<not> isValidXAddress address \<longrightarrow>
      DefaultXpringClient_getBalance isValidXAddress BigInt networkClient address =
        ([], Rejected (Error ''Please use the X-Address format. See: https://xrpaddress.info/.'')))
   \<and> fst (XpringClient_getBalance legacyNetworkClient address) =
       [GetAccountInfoCall \<lparr>GetAccountInfoRequest_address = address\<rparr>]
   \<and> (\<exists>calls.
         fst (XpringClient_send legacyNetworkClient signTransaction sender amount destination) =
           GetFeeCall GetFeeRequest # calls)"
  by (simp add: DefaultXpringClient_getBalance_def xAddressRequired_def
      XpringClient_getBalance_def send_defs split: promise.splits option.splits prod.splits)

theorem getBalance_invalid_address_witness:
  "\<not> startsWithX ''rHb9CJAWyB4rj91VRWn96DkukG4bwdtyTh''
   \<and> DefaultXpringClient_getBalance startsWithX numberToBigInt (respondingWith (JSNumber 4000))
         ''rHb9CJAWyB4rj91VRWn96DkukG4bwdtyTh'' =
       ([], Rejected (Error ''Please use the X-Address format. See: https://xrpaddress.info/.''))"
proof -
  have invalid: "\<not> startsWithX ''rHb9CJAWyB4rj91VRWn96DkukG4bwdtyTh''"
    by (simp add: startsWithX_def)
  note rejected = getBalance_invalid_address
    [of startsWithX "''rHb9CJAWyB4rj91VRWn96DkukG4bwdtyTh''" numberToBigInt
      "respondingWith (JSNumber 4000)", THEN conjunct1, rule_format, OF invalid]
  show ?thesis
    using invalid rejected by simp
qed

text \<open>
  C2 as stated fails on the legacy client: for the empty string, which is no address,
  \<open>getBalance\<close> calls the backend and resolves with the balance, and \<open>send\<close> calls the
  backend and fails with the backend's error, not with an invalid-address error.
\<close>

theorem legacy_client_invalid_address_counterexample:
  "XpringClient_getBalance (FakeLegacyNetworkClient defaultSuccessfulResponses) '''' =
     ([GetAccountInfoCall \<lparr>GetAccountInfoRequest_address = ''''\<rparr>],
      Resolved \<lparr>XRPAmount_drops = ''4000''\<rparr>)
   \<and> XpringClient_send (FakeLegacyNetworkClient defaultErrorResponses)
       signingStub \<lparr>Wallet_address = ''''\<rparr> oneDrop '''' =
     ([GetFeeCall GetFeeRequest], Rejected (Error ''fake network client failure''))"
  by (simp add: send_defs XpringClient_getBalance_def fake_error_getFee
      fake_default_getAccountInfo defaultError_def)


text \<open>
  C4. During \<open>send\<close>, once the fee and the sequence number have been fetched: if the
  Signer throws an error, \<open>send\<close> fails with an error whose message is the
  signing-failure message, a full stop, a space and the thrown error's message; if the
  Signer returns \<open>undefined\<close>, \<open>send\<close> fails with the fixed signing-failure message.
  Nothing is submitted in either case.
\<close>

theorem send_signing_failure:
  assumes "getFee networkClient GetFeeRequest = Resolved fee"
    and "Fee_amount fee = Some feeAmount"
    and "getAccountInfo networkClient \<lparr>GetAccountInfoRequest_address = Wallet_address sender\<rparr>
           = Resolved accountInfo"
    and "AccountInfo_sequence accountInfo = Some sequence"
  shows "(signTransaction (assemble sender feeAmount sequence amount destination) sender
            = Throws signingError \<longrightarrow>
          XpringClient_send networkClient signTransaction sender amount destination =
            ([GetFeeCall GetFeeRequest,
              GetAccountInfoCall \<lparr>GetAccountInfoRequest_address = Wallet_address sender\<rparr>,
              SignTransactionCall (assemble sender feeAmount sequence amount destination) sender],
             Rejected (Error (''Unable to sign the transaction. '' @ message signingError))))
       \<and> (signTransaction (assemble sender feeAmount sequence amount destination) sender
            = Returns None \<longrightarrow>
          XpringClient_send networkClient signTransaction sender amount destination =
            ([GetFeeCall GetFeeRequest,
              GetAccountInfoCall \<lparr>GetAccountInfoRequest_address = Wallet_address sender\<rparr>,
              SignTransactionCall (assemble sender feeAmount sequence amount destination) sender],
             Rejected (Error ''Unable to sign the transaction'')))"
  using send_signer_throws [OF assms, of signTransaction amount destination signingError]
    send_signer_undefined [OF assms, of signTransaction amount destination]
  by (simp add: signingFailure_def)

theorem send_signing_failure_witness:
  "XpringClient_send (FakeLegacyNetworkClient defaultSuccessfulResponses) throwingStub
       testWallet oneDrop ''X7cBcY4bdTTzk3LHmrKAK6GyrirkXfLHGFxzke5zTmYMfw4'' =
     ([GetFeeCall GetFeeRequest,
       GetAccountInfoCall \<lparr>GetAccountInfoRequest_address = Wallet_address testWallet\<rparr>,
       SignTransactionCall
         (assemble testWallet \<lparr>XRPAmount_drops = ''10''\<rparr> 0 oneDrop
            ''X7cBcY4bdTTzk3LHmrKAK6GyrirkXfLHGFxzke5zTmYMfw4'') testWallet],
      Rejected (Error ''Unable to sign the transaction. no private key''))
   \<and> XpringClient_send (FakeLegacyNetworkClient defaultSuccessfulResponses) undefinedStub
       testWallet oneDrop ''X7cBcY4bdTTzk3LHmrKAK6GyrirkXfLHGFxzke5zTmYMfw4'' =
     ([GetFeeCall GetFeeRequest,
       GetAccountInfoCall \<lparr>GetAccountInfoRequest_address = Wallet_address testWallet\<rparr>,
       SignTransactionCall
         (assemble testWallet \<lparr>XRPAmount_drops = ''10''\<rparr> 0 oneDrop
            ''X7cBcY4bdTTzk3LHmrKAK6GyrirkXfLHGFxzke5zTmYMfw4'') testWallet],
      Rejected (Error ''Unable to sign the transaction''))"
proof -
  let ?client = "FakeLegacyNetworkClient defaultSuccessfulResponses"
  have fee: "getFee ?client GetFeeRequest =
      Resolved \<lparr>Fee_amount = Some \<lparr>XRPAmount_drops = ''10''\<rparr>\<rparr>"
    by (rule fake_default_getFee)
  have amount: "Fee_amount \<lparr>Fee_amount = Some \<lparr>XRPAmount_drops = ''10''\<rparr>\<rparr> =
      Some \<lparr>XRPAmount_drops = ''10''\<rparr>"
    by simp
  have account: "getAccountInfo ?client
      \<lparr>GetAccountInfoRequest_address = Wallet_address testWallet\<rparr> =
      Resolved \<lparr>AccountInfo_balance = Some \<lparr>XRPAmount_drops = ''4000''\<rparr>,
                AccountInfo_sequence = Some 0\<rparr>"
    by (rule fake_default_getAccountInfo)
  have sequence: "AccountInfo_sequence
      \<lparr>AccountInfo_balance = Some \<lparr>XRPAmount_drops = ''4000''\<rparr>,
       AccountInfo_sequence = Some 0\<rparr> = Some 0"
    by simp
  show ?thesis
    using send_signing_failure [OF fee amount account sequence, of throwingStub oneDrop
        "''X7cBcY4bdTTzk3LHmrKAK6GyrirkXfLHGFxzke5zTmYMfw4''" "Error ''no private key''"]
      send_signing_failure [OF fee amount account sequence, of undefinedStub oneDrop
        "''X7cBcY4bdTTzk3LHmrKAK6GyrirkXfLHGFxzke5zTmYMfw4''" "Error ''no private key''"]
    by (simp add: throwingStub_def undefinedStub_def)
qed

text \<open>
  C5. For every address, when the backend resolves \<open>getAccountInfo\<close>, \<open>getBalance\<close>
  resolves with exactly the balance of that account info, and fails with the
  malformed-response error when the balance is absent. Against the default all-success
  fake the balance is 4000.
\<close>

theorem getBalance_projects_balance:
  "(getAccountInfo networkClient \<lparr>GetAccountInfoRequest_address = address\<rparr>
      = Resolved accountInfo \<longrightarrow>
    XpringClient_getBalance networkClient address =
      ([GetAccountInfoCall \<lparr>GetAccountInfoRequest_address = address\<rparr>],
       case AccountInfo_balance accountInfo of
         None \<Rightarrow> Rejected (Error ''Malformed Response.'')
       | Some balance \<Rightarrow> Resolved balance))
   \<and> XpringClient_getBalance (FakeLegacyNetworkClient defaultSuccessfulResponses)
        address =
      ([GetAccountInfoCall \<lparr>GetAccountInfoRequest_address = address\<rparr>],
       Resolved \<lparr>XRPAmount_drops = ''4000''\<rparr>)"
  by (simp add: XpringClient_getBalance_def XpringClient_getAccountInfo_def then_async_def
      malformedResponse_def fake_default_getAccountInfo split: option.splits)

theorem getBalance_projects_balance_witness:
  "XpringClient_getBalance (FakeLegacyNetworkClient defaultSuccessfulResponses)
       ''X7cBcY4bdTTzk3LHmrKAK6GyrirkXfLHGFxzke5zTmYMfw4'' =
     ([GetAccountInfoCall
         \<lparr>GetAccountInfoRequest_address = ''X7cBcY4bdTTzk3LHmrKAK6GyrirkXfLHGFxzke5zTmYMfw4''\<rparr>],
      Resolved \<lparr>XRPAmount_drops = ''4000''\<rparr>)
   \<and> XpringClient_getBalance (FakeLegacyNetworkClient accountWithoutBalance)
       ''X7cBcY4bdTTzk3LHmrKAK6GyrirkXfLHGFxzke5zTmYMfw4'' =
     ([GetAccountInfoCall
         \<lparr>GetAccountInfoRequest_address = ''X7cBcY4bdTTzk3LHmrKAK6GyrirkXfLHGFxzke5zTmYMfw4''\<rparr>],
      Rejected (Error ''Malformed Response.''))"
  using
    getBalance_projects_balance [of "FakeLegacyNetworkClient defaultSuccessfulResponses"
      "''X7cBcY4bdTTzk3LHmrKAK6GyrirkXfLHGFxzke5zTmYMfw4''"
      "\<lparr>AccountInfo_balance = Some \<lparr>XRPAmount_drops = ''4000''\<rparr>,
        AccountInfo_sequence = Some 0\<rparr>"]
    getBalance_projects_balance [of "FakeLegacyNetworkClient accountWithoutBalance"
      "''X7cBcY4bdTTzk3LHmrKAK6GyrirkXfLHGFxzke5zTmYMfw4''"
      "\<lparr>AccountInfo_balance = None, AccountInfo_sequence = Some 7\<rparr>"]
  by (simp add: fake_ops accountWithoutBalance_def response_defs)

text \<open>
  C6 (the code diverges). \<open>LegacyGRPCNetworkClient.submitSignedTransaction\<close> compares
  with \<open>!== null\<close> and \<open>=== null\<close>: when the stub reports no error and hands over
  \<open>undefined\<close> as the response, the promise resolves with \<open>undefined\<close>, and when the
  stub hands over a response with \<open>undefined\<close> as the error, the promise is rejected.
  On the same callbacks \<open>getAccountInfo\<close>, which compares with \<open>!= null\<close> and
  \<open>== null\<close>, rejects the first and resolves the second.
\<close>

theorem submitSignedTransaction_strict_null:
  "LegacyGRPCNetworkClient_submitSignedTransaction noPayloadStub request = Resolved Undefined
   \<and> LegacyGRPCNetworkClient_submitSignedTransaction undefinedErrorStub request =
       Rejected Undefined
   \<and> LegacyGRPCNetworkClient_getAccountInfo noPayloadStub request = Rejected Null
   \<and> LegacyGRPCNetworkClient_getAccountInfo undefinedErrorStub request =
       Resolved (Defined defaultSubmitSignedTransactionResponse)"
  by (simp add: grpc_defs noPayloadStub_def undefinedErrorStub_def)

theorem submitSignedTransaction_strict_null_witness:
  "LegacyGRPCNetworkClient_submitSignedTransaction noPayloadStub
     \<lparr>SubmitSignedTransactionRequest_signedTransaction = SignedTransaction ''SIGNED''\<rparr> =
     Resolved Undefined"
  using submitSignedTransaction_strict_null
    [of "\<lparr>SubmitSignedTransactionRequest_signedTransaction = SignedTransaction ''SIGNED''\<rparr>"]
  by simp



text \<open>
  C8. \<open>send\<close> is fail-fast. Its collaborator calls are an initial segment of: fetch
  fee, fetch account info, sign, submit (so no step runs twice and none runs out of
  order). Whichever step fails, the calls end with that step and the promise is rejected
  with that step's error; a submission's outcome is returned as it is. A submission
  call occurs only when the fee, the sequence number and the signature were all
  obtained.
\<close>

theorem send_fail_fast:
  "prefix
     (map step_of (fst (XpringClient_send networkClient signTransaction sender amount destination)))
     [FetchFee, FetchAccountInfo, Sign, Submit]
   \<and> (\<forall>e. getFee networkClient GetFeeRequest = Rejected e \<longrightarrow>
         XpringClient_send networkClient signTransaction sender amount destination =
           ([GetFeeCall GetFeeRequest], Rejected e))
   \<and> (\<forall>fee. getFee networkClient GetFeeRequest = Resolved fee \<longrightarrow>
        (Fee_amount fee = None \<longrightarrow>
           XpringClient_send networkClient signTransaction sender amount destination =
             ([GetFeeCall GetFeeRequest], Rejected (Error malformedResponse)))
      \<and> (\<forall>feeAmount. Fee_amount fee = Some feeAmount \<longrightarrow>
           (\<forall>e. getAccountInfo networkClient
                   \<lparr>GetAccountInfoRequest_address = Wallet_address sender\<rparr> = Rejected e \<longrightarrow>
              XpringClient_send networkClient signTransaction sender amount destination =
                ([GetFeeCall GetFeeRequest,
                  GetAccountInfoCall
                    \<lparr>GetAccountInfoRequest_address = Wallet_address sender\<rparr>],
                 Rejected e))
         \<and> (\<forall>accountInfo. getAccountInfo networkClient
                   \<lparr>GetAccountInfoRequest_address = Wallet_address sender\<rparr>
                     = Resolved accountInfo \<longrightarrow>
              (AccountInfo_sequence accountInfo = None \<longrightarrow>
                 XpringClient_send networkClient signTransaction sender amount destination =
                   ([GetFeeCall GetFeeRequest,
                     GetAccountInfoCall
                       \<lparr>GetAccountInfoRequest_address = Wallet_address sender\<rparr>],
                    Rejected (Error malformedResponse)))
            \<and> (\<forall>sequence. AccountInfo_sequence accountInfo = Some sequence \<longrightarrow>
                 (\<forall>signingError.
                    signTransaction (assemble sender feeAmount sequence amount destination) sender
                      = Throws signingError \<longrightarrow>
                    XpringClient_send networkClient signTransaction sender amount destination =
                      ([GetFeeCall GetFeeRequest,
                        GetAccountInfoCall
                          \<lparr>GetAccountInfoRequest_address = Wallet_address sender\<rparr>,
                        SignTransactionCall
                          (assemble sender feeAmount sequence amount destination) sender],
                       Rejected (Error (signingFailure @ ''. '' @ message signingError))))
               \<and> (signTransaction (assemble sender feeAmount sequence amount destination) sender
                      = Returns None \<longrightarrow>
                    XpringClient_send networkClient signTransaction sender amount destination =
                      ([GetFeeCall GetFeeRequest,
                        GetAccountInfoCall
                          \<lparr>GetAccountInfoRequest_address = Wallet_address sender\<rparr>,
                        SignTransactionCall
                          (assemble sender feeAmount sequence amount destination) sender],
                       Rejected (Error signingFailure)))
               \<and> (\<forall>signed.
                    signTransaction (assemble sender feeAmount sequence amount destination) sender
                      = Returns (Some signed) \<longrightarrow>
                    XpringClient_send networkClient signTransaction sender amount destination =
                      ([GetFeeCall GetFeeRequest,
                        GetAccountInfoCall
                          \<lparr>GetAccountInfoRequest_address = Wallet_address sender\<rparr>,
                        SignTransactionCall
                          (assemble sender feeAmount sequence amount destination) sender,
                        SubmitSignedTransactionCall
                          \<lparr>SubmitSignedTransactionRequest_signedTransaction = signed\<rparr>],
                       submitSignedTransaction networkClient
                         \<lparr>SubmitSignedTransactionRequest_signedTransaction = signed\<rparr>))))))
   \<and> (\<forall>request.
         SubmitSignedTransactionCall request
           \<in> set (fst (XpringClient_send networkClient signTransaction sender amount destination))
         \<longrightarrow>
         (\<exists>fee feeAmount accountInfo sequence.
            getFee networkClient GetFeeRequest = Resolved fee
          \<and> Fee_amount fee = Some feeAmount
          \<and> getAccountInfo networkClient
               \<lparr>GetAccountInfoRequest_address = Wallet_address sender\<rparr> = Resolved accountInfo
          \<and> AccountInfo_sequence accountInfo = Some sequence
          \<and> signTransaction (assemble sender feeAmount sequence amount destination) sender
               = Returns (Some (SubmitSignedTransactionRequest_signedTransaction request))))"
proof (intro conjI allI impI)
  show "prefix
     (map step_of (fst (XpringClient_send networkClient signTransaction sender amount destination)))
     [FetchFee, FetchAccountInfo, Sign, Submit]"
    by (rule send_steps_prefix)
next
  fix request
  assume "SubmitSignedTransactionCall request
    \<in> set (fst (XpringClient_send networkClient signTransaction sender amount destination))"
  then show "\<exists>fee feeAmount accountInfo sequence.
            getFee networkClient GetFeeRequest = Resolved fee
          \<and> Fee_amount fee = Some feeAmount
          \<and> getAccountInfo networkClient
               \<lparr>GetAccountInfoRequest_address = Wallet_address sender\<rparr> = Resolved accountInfo
          \<and> AccountInfo_sequence accountInfo = Some sequence
          \<and> signTransaction (assemble sender feeAmount sequence amount destination) sender
               = Returns (Some (SubmitSignedTransactionRequest_signedTransaction request))"
    by (rule send_submit_only_after_success)
qed (simp_all add: send_fee_rejected send_fee_malformed send_account_rejected
    send_account_malformed send_signer_throws send_signer_undefined send_submitted)

theorem send_fail_fast_witness:
  "XpringClient_send (FakeLegacyNetworkClient defaultErrorResponses) signingStub testWallet
       oneDrop ''X7cBcY4bdTTzk3LHmrKAK6GyrirkXfLHGFxzke5zTmYMfw4'' =
     ([GetFeeCall GetFeeRequest], Rejected defaultError)
   \<and> XpringClient_send (FakeLegacyNetworkClient submissionFails) signingStub testWallet
       oneDrop ''X7cBcY4bdTTzk3LHmrKAK6GyrirkXfLHGFxzke5zTmYMfw4'' =
     ([GetFeeCall GetFeeRequest,
       GetAccountInfoCall \<lparr>GetAccountInfoRequest_address = Wallet_address testWallet\<rparr>,
       SignTransactionCall
         (assemble testWallet \<lparr>XRPAmount_drops = ''10''\<rparr> 0 oneDrop
            ''X7cBcY4bdTTzk3LHmrKAK6GyrirkXfLHGFxzke5zTmYMfw4'') testWallet,
       SubmitSignedTransactionCall
         \<lparr>SubmitSignedTransactionRequest_signedTransaction = SignedTransaction ''SIGNED''\<rparr>],
      Rejected defaultError)
   \<and> XpringClient_send (FakeLegacyNetworkClient submissionFails) throwingStub testWallet
       oneDrop ''X7cBcY4bdTTzk3LHmrKAK6GyrirkXfLHGFxzke5zTmYMfw4'' =
     ([GetFeeCall GetFeeRequest,
       GetAccountInfoCall \<lparr>GetAccountInfoRequest_address = Wallet_address testWallet\<rparr>,
       SignTransactionCall
         (assemble testWallet \<lparr>XRPAmount_drops = ''10''\<rparr> 0 oneDrop
            ''X7cBcY4bdTTzk3LHmrKAK6GyrirkXfLHGFxzke5zTmYMfw4'') testWallet],
      Rejected (Error ''Unable to sign the transaction. no private key''))"
proof -
  let ?failing = "FakeLegacyNetworkClient defaultErrorResponses"
  let ?client = "FakeLegacyNetworkClient submissionFails"
  let ?destination = "''X7cBcY4bdTTzk3LHmrKAK6GyrirkXfLHGFxzke5zTmYMfw4''"
  let ?fee = "\<lparr>Fee_amount = Some \<lparr>XRPAmount_drops = ''10''\<rparr>\<rparr>"
  let ?account = "\<lparr>AccountInfo_balance = Some \<lparr>XRPAmount_drops = ''4000''\<rparr>,
                  AccountInfo_sequence = Some 0\<rparr>"
  have no_fee: "getFee ?failing GetFeeRequest = Rejected defaultError"
    by (rule fake_error_getFee)
  have fee: "getFee ?client GetFeeRequest = Resolved ?fee"
    by (simp add: fake_ops submissionFails_def response_defs)
  have amount: "Fee_amount ?fee = Some \<lparr>XRPAmount_drops = ''10''\<rparr>"
    by simp
  have account: "getAccountInfo ?client
      \<lparr>GetAccountInfoRequest_address = Wallet_address testWallet\<rparr> = Resolved ?account"
    by (simp add: fake_ops submissionFails_def response_defs)
  have sequence: "AccountInfo_sequence ?account = Some 0"
    by simp
  have submit: "submitSignedTransaction ?client request = Rejected defaultError" for request
    by (simp add: fake_ops submissionFails_def response_defs)
  have signs: "signingStub transaction testWallet = Returns (Some (SignedTransaction ''SIGNED''))"
    for transaction
    by (simp add: signingStub_def)
  have throws: "throwingStub transaction testWallet = Throws (Error ''no private key'')"
    for transaction
    by (simp add: throwingStub_def)
  note first = send_fail_fast [of ?failing signingStub testWallet oneDrop ?destination,
      THEN conjunct2, THEN conjunct1, rule_format, OF no_fee]
  note signed = send_fail_fast [of ?client signingStub testWallet oneDrop ?destination,
      THEN conjunct2, THEN conjunct2, THEN conjunct1, rule_format, OF fee,
      THEN conjunct2, rule_format, OF amount,
      THEN conjunct2, rule_format, OF account,
      THEN conjunct2, rule_format, OF sequence,
      THEN conjunct2, THEN conjunct2, rule_format, OF signs]
  note thrown = send_fail_fast [of ?client throwingStub testWallet oneDrop ?destination,
      THEN conjunct2, THEN conjunct2, THEN conjunct1, rule_format, OF fee,
      THEN conjunct2, rule_format, OF amount,
      THEN conjunct2, rule_format, OF account,
      THEN conjunct2, rule_format, OF sequence,
      THEN conjunct1, rule_format, OF throws]
  show ?thesis
    using first signed thrown by (simp add: submit signingFailure_def)
qed

text \<open>
  C9 (amended). In \<open>DefaultXpringClient\<close> a field whose getter yields a falsy value
  (\<open>undefined\<close>, \<open>null\<close>, the number 0, the empty string) is treated as absent:
  \<open>getFee\<close> fails with the malformed-response error when the drops field is absent or
  the minimum fee is falsy, and \<open>getBalance\<close> fails with it when the account data is
  absent or the balance is falsy. A minimum fee or balance that is an amount message is
  truthy whatever its drops: it is passed on.
\<close>

theorem default_client_falsy_fields:
  "(NetworkClient_getFee networkClient GetFeeRequest_v1 = Resolved feeResponse \<longrightarrow>
      (GetFeeResponse_drops feeResponse = None \<longrightarrow>
         DefaultXpringClient_getFee networkClient =
           ([GetFeeCall_v1 GetFeeRequest_v1], Rejected (Error ''Malformed Response.'')))
    \<and> (\<forall>fee. GetFeeResponse_drops feeResponse = Some fee \<longrightarrow>
           DefaultXpringClient_getFee networkClient =
             ([GetFeeCall_v1 GetFeeRequest_v1],
              if truthy (FeeLevels_minimumFee fee) then Resolved (FeeLevels_minimumFee fee)
              else Rejected (Error ''Malformed Response.''))))
   \<and> (isValidXAddress address
        \<and> NetworkClient_getAccountInfo networkClient
             \<lparr>GetAccountInfoRequest_account = Some \<lparr>AccountAddress_address = address\<rparr>\<rparr>
            = Resolved accountInfo \<longrightarrow>
      (GetAccountInfoResponse_accountData accountInfo = None \<longrightarrow>
         DefaultXpringClient_getBalance isValidXAddress BigInt networkClient address =
           ([GetAccountInfoCall_v1
               \<lparr>GetAccountInfoRequest_account = Some \<lparr>AccountAddress_address = address\<rparr>\<rparr>],
            Rejected (Error ''Malformed Response.'')))
    \<and> (\<forall>accountData. GetAccountInfoResponse_accountData accountInfo = Some accountData \<longrightarrow>
           DefaultXpringClient_getBalance isValidXAddress BigInt networkClient address =
             ([GetAccountInfoCall_v1
                 \<lparr>GetAccountInfoRequest_account = Some \<lparr>AccountAddress_address = address\<rparr>\<rparr>],
              if truthy (AccountRoot_balance accountData)
              then BigInt (AccountRoot_balance accountData)
              else Rejected (Error ''Malformed Response.''))))
   \<and> \<not> truthy JSUndefined \<and> \<not> truthy JSNull \<and> \<not> truthy (JSNumber 0)
   \<and> \<not> truthy (JSString '''') \<and> (\<forall>drops. truthy (JSMessage \<lparr>XRPDropsAmount_drops = drops\<rparr>))"
  by (simp add: DefaultXpringClient_getFee_def DefaultXpringClient_getBalance_def
      malformedResponse_def)

theorem default_client_falsy_fields_witness:
  "DefaultXpringClient_getFee (respondingWith (JSNumber 0)) =
     ([GetFeeCall_v1 GetFeeRequest_v1], Rejected (Error ''Malformed Response.''))
   \<and> DefaultXpringClient_getBalance startsWithX numberToBigInt (respondingWith (JSNumber 0))
       ''X7cBcY4bdTTzk3LHmrKAK6GyrirkXfLHGFxzke5zTmYMfw4'' =
     ([GetAccountInfoCall_v1
         \<lparr>GetAccountInfoRequest_account =
            Some \<lparr>AccountAddress_address = ''X7cBcY4bdTTzk3LHmrKAK6GyrirkXfLHGFxzke5zTmYMfw4''\<rparr>\<rparr>],
      Rejected (Error ''Malformed Response.''))
   \<and> DefaultXpringClient_getBalance startsWithX numberToBigInt (respondingWith (JSNumber 4000))
       ''X7cBcY4bdTTzk3LHmrKAK6GyrirkXfLHGFxzke5zTmYMfw4'' =
     ([GetAccountInfoCall_v1
         \<lparr>GetAccountInfoRequest_account =
            Some \<lparr>AccountAddress_address = ''X7cBcY4bdTTzk3LHmrKAK6GyrirkXfLHGFxzke5zTmYMfw4''\<rparr>\<rparr>],
      Resolved 4000)"
proof -
  let ?address = "''X7cBcY4bdTTzk3LHmrKAK6GyrirkXfLHGFxzke5zTmYMfw4''"
  have valid: "startsWithX ?address"
    by (simp add: startsWithX_def)
  have fee: "NetworkClient_getFee (respondingWith v) GetFeeRequest_v1 =
      Resolved \<lparr>GetFeeResponse_drops = Some \<lparr>FeeLevels_minimumFee = v\<rparr>\<rparr>" for v
    by (simp add: respondingWith_def)
  have account: "NetworkClient_getAccountInfo (respondingWith v)
      \<lparr>GetAccountInfoRequest_account = Some \<lparr>AccountAddress_address = ?address\<rparr>\<rparr> =
      Resolved \<lparr>GetAccountInfoResponse_accountData = Some \<lparr>AccountRoot_balance = v\<rparr>\<rparr>" for v
    by (simp add: respondingWith_def)
  note zero_fee = default_client_falsy_fields
    [of "respondingWith (JSNumber 0)" _ startsWithX ?address _ numberToBigInt,
      THEN conjunct1, rule_format, OF fee, THEN conjunct2, rule_format,
      of "\<lparr>FeeLevels_minimumFee = JSNumber 0\<rparr>"]
  note zero_balance = default_client_falsy_fields
    [of "respondingWith (JSNumber 0)" _ startsWithX ?address _ numberToBigInt,
      THEN conjunct2, THEN conjunct1, rule_format, OF conjI [OF valid account],
      THEN conjunct2, rule_format, of "\<lparr>AccountRoot_balance = JSNumber 0\<rparr>"]
  note balance = default_client_falsy_fields
    [of "respondingWith (JSNumber 4000)" _ startsWithX ?address _ numberToBigInt,
      THEN conjunct2, THEN conjunct1, rule_format, OF conjI [OF valid account],
      THEN conjunct2, rule_format, of "\<lparr>AccountRoot_balance = JSNumber 4000\<rparr>"]
  show ?thesis
    using zero_fee zero_balance balance by (simp add: numberToBigInt_def)
qed

text \<open>
  C9 as stated fails: \<open>getFee\<close> returns an \<open>XRPDropsAmount\<close> message, and a minimum
  fee of 0 drops is such a message, hence truthy: \<open>getFee\<close> resolves with it.
\<close>

theorem zero_drops_fee_counterexample:
  "DefaultXpringClient_getFee (respondingWith (JSMessage \<lparr>XRPDropsAmount_drops = 0\<rparr>)) =
     ([GetFeeCall_v1 GetFeeRequest_v1], Resolved (JSMessage \<lparr>XRPDropsAmount_drops = 0\<rparr>))"
  by (simp add: DefaultXpringClient_getFee_def respondingWith_def)

text \<open>
  C10. \<open>send\<close> and \<open>getTransactionStatus\<close> of \<open>DefaultXpringClient\<close> fail with the
  unimplemented error for every input. They make no call: their bodies name no
  collaborator.
\<close>

theorem default_client_unimplemented:
  "DefaultXpringClient_send networkClient amount destination sender =
     ([], Rejected (Error ''Unimplemented.''))
   \<and> DefaultXpringClient_getTransactionStatus networkClient transactionHash =
     ([], Rejected (Error ''Unimplemented.''))"
  by (simp add: DefaultXpringClient_send_def DefaultXpringClient_getTransactionStatus_def
      unimplemented_def)

end
